theory Spec2Isabelle
  imports Complex_Main
begin

section \<open>Numbers and money\<close>

text \<open>
  The service is JavaScript; every amount is a \<open>number\<close> obtained by \<open>parseFloat\<close> from a
  decimal string of the WooCommerce API and rounded with \<open>parseFloat(x.toFixed(2))\<close>.
  The model computes with exact rationals: a decimal string is the rational it denotes,
  the four arithmetic operations are exact, and \<open>toFixed(2)\<close> rounds to the nearest
  hundredth, a tie going to the value of larger magnitude (ECMAScript: "let n be an integer
  for which n / 10^f - x is as close to zero as possible; if there are two such n, pick the
  larger n", applied to the absolute value). The representation error of binary floating
  point is not part of the model. Non-finite numbers (\<open>NaN\<close>, \<open>Infinity\<close>) are not
  represented either: fields that the code parses are taken to be numeric, and the only
  division whose divisor can then be zero is the one by the retail value of a bundle of
  quantity 0, which the data model excludes (a quantity is a positive integer).
\<close>

definition toFixed2 :: "rat \<Rightarrow> rat" where
  "toFixed2 x =
     (if x < 0 then - (of_int \<lfloor>(- x) * 100 + 1 / 2\<rfloor> / 100)
      else of_int \<lfloor>x * 100 + 1 / 2\<rfloor> / 100)"


text \<open>\<open>Number.prototype.toString\<close> on a natural number: its decimal digits.\<close>

definition digitChar :: "nat \<Rightarrow> char" where
  "digitChar d = ''0123456789'' ! d"

fun showNat :: "nat \<Rightarrow> string" where
  "showNat n =
     (if n < 10 then [digitChar n]
      else showNat (n div 10) @ [digitChar (n mod 10)])"

declare showNat.simps [simp del]

section \<open>Data model\<close>

text \<open>
  A field of a WooCommerce object that the code tests for truthiness (\<open>if (item.total)\<close>,
  \<open>shipping.total || 0\<close>) is an option: \<open>None\<close> when the field is falsy (absent, \<open>null\<close>,
  the empty string or the number 0) and \<open>Some x\<close> when it is truthy and denotes the number
  \<open>x\<close>; the string \<open>"0.00"\<close> is truthy and is \<open>Some 0\<close>. For the string \<open>sku\<close> and the number
  \<open>product_id\<close> the falsy values are \<open>[]\<close> and \<open>0\<close>.
\<close>

record line_item =
  li_name :: string
  li_quantity :: int
  li_sku :: string
  li_product_id :: nat
  li_total :: "rat option"
  li_total_tax :: "rat option"
  li_subtotal :: "rat option"
  li_subtotal_tax :: "rat option"
  li_price :: "rat option"

record shipping_line =
  sh_total :: "rat option"
  sh_total_tax :: "rat option"

record coupon_line =
  cp_code :: "string option"
  cp_discount :: "rat option"
  cp_discount_tax :: "rat option"

record billing_info =
  first_name :: string
  last_name :: string
  address_1 :: "string option"
  city :: "string option"
  country :: "string option"
  postcode :: "string option"
  email :: "string option"
  phone :: "string option"

text \<open>
  \<open>ord_id\<close> is the text that the template literal renders for \<open>wooOrder.id\<close>; \<open>ord_total\<close> is
  \<open>None\<close> when \<open>parseFloat(wooOrder.total)\<close> is \<open>NaN\<close>.
\<close>

record woo_order =
  ord_id :: string
  ord_total :: "rat option"
  currency :: "string option"
  prices_include_tax :: bool
  line_items :: "line_item list"
  shipping_lines :: "shipping_line list"
  coupon_lines :: "coupon_line list"
  billing :: billing_info

record merit_item =
  Code :: string
  Description :: string
  Type :: nat
  UOMName :: string

text \<open>
  \<open>Quantity\<close> and \<open>Price\<close> are decimal strings in the code, written with \<open>toString\<close> or
  \<open>toFixed(2)\<close> and read back with \<open>parseFloat\<close>; the model keeps the numbers they denote.
\<close>

record invoice_row =
  Item :: merit_item
  Quantity :: int
  Price :: rat
  DiscountPct :: rat
  DiscountAmount :: rat
  TaxId :: string
  LocationCode :: nat




record config =
  merit_vatTaxId :: "string option"
  woocommerce_webhookSecret :: "string option"


section \<open>Line-item normalizer: \<open>prepareInvoiceRowsFromWooOrder\<close>\<close>

definition getVATTaxId :: "config \<Rightarrow> string" where
  "getVATTaxId cfg =
     (case merit_vatTaxId cfg of
        Some v \<Rightarrow> if v \<noteq> [] then v else ''307000b4-f1f2-4bc7-a110-24cb18d77212''
      | None \<Rightarrow> ''307000b4-f1f2-4bc7-a110-24cb18d77212'')"

text \<open>
  The product table: name, then code, description and unit. Two names carry the letters
  u-umlaut and a-umlaut, written here by their code units. The table is an object literal
  in the code; the properties it inherits from \<open>Object.prototype\<close> are not product names
  and are left out.
\<close>

definition productMapping :: "(string \<times> string \<times> string \<times> string) list" where
  "productMapping =
     [(''Toalillemuld biohuumusega'',
         ''4744278011219'', ''Toalillemuld 2, 5 l'', ''tk''),
      (''Biohuumuse kontsentraat mahekasvatuseks'',
         ''4742022540015'', ''Biohuumuse kontsentraat mahekasvatuseks, 500ml'', ''tk''),
      (''Biohuumuse kontsentraat lilledele'',
         ''4742022540022'', ''Biohuumuse kontsentraat Lilledele, 500ml'', ''tk''),
      (''Ettekasvatussegu biohuumusega'',
         ''4744278011011'', ''Ettekasvatussegu biohuumusega 5 l'', ''tk''),
      (''Rammus p'' @ [CHR 0xFC] @ ''sikusegu biohuumusega'',
         ''4744278011110'',
         ''Rammus p'' @ [CHR 0xFC] @ ''sikusegu biohuumusega 5, 0 l'', ''tk''),
      (''Biohuumus 2, 5 l Ussimo'',
         ''4744278011318'', ''Biohuumus 2, 5 l Ussimo'', ''tk''),
      (''Biohuumus 5 l Ussimo'',
         ''4744278010014'', ''Biohuumus 5 l Ussimo'', ''tk''),
      (''Biohuumus Universaalne Mahev'' @ [CHR 0xE4] @ ''etis 5l'',
         ''4744278010014'', ''Biohuumus 5 l Ussimo'', ''tk''),
      (''Vertikaalne taimekast'',
         ''4744278010038'', ''Vertikaalne taimekast'', ''tk'')]"

text \<open>
  The pre-tax total of a bundle line (\<open>totalPrice\<close>): from \<open>total\<close>, else \<open>subtotal\<close>, else
  \<open>price\<close>, else the campaign default of 8.20 per bundle.
\<close>

definition bundleTotalPrice :: "bool \<Rightarrow> line_item \<Rightarrow> rat" where
  "bundleTotalPrice pricesIncludeTax item =
     (let quantity = of_int (li_quantity item) in
      case li_total item of
        Some itemTotal \<Rightarrow>
          (case li_total_tax item of
             Some totalTax \<Rightarrow> toFixed2 (itemTotal - totalTax)
           | None \<Rightarrow>
               if pricesIncludeTax then toFixed2 (itemTotal / (122 / 100)) else itemTotal)
      | None \<Rightarrow>
          (case li_subtotal item of
             Some subtotal \<Rightarrow>
               (case li_subtotal_tax item of
                  Some subtotalTax \<Rightarrow> toFixed2 (subtotal - subtotalTax)
                | None \<Rightarrow>
                    if pricesIncludeTax then toFixed2 (subtotal / (122 / 100))
                    else subtotal)
           | None \<Rightarrow>
               (case li_price item of
                  Some price \<Rightarrow>
                    (let unitPrice =
                       (if pricesIncludeTax then toFixed2 (price / (122 / 100))
                        else price)
                     in toFixed2 (unitPrice * quantity))
                | None \<Rightarrow> (820 / 100) * quantity)))"

text \<open>
  The unit prices of the two replacement products of a bundle with pre-tax total
  \<open>totalPrice\<close>: the retail prices scaled by the discount factor and rounded, and the
  "fine-tuning" of the soil price when the rounded lines do not add up.
\<close>

definition bundlePrices :: "int \<Rightarrow> rat \<Rightarrow> rat \<times> rat" where
  "bundlePrices quantity totalPrice =
     (let soilRetailPrice = 215 / 100;
          concentrateRetailPrice = 299 / 100;
          soilUnits = 4 * quantity;
          concentrateUnits = 2 * quantity;
          soilRetailTotal = of_int soilUnits * soilRetailPrice;
          concentrateRetailTotal = of_int concentrateUnits * concentrateRetailPrice;
          totalRetailValue = soilRetailTotal + concentrateRetailTotal;
          discountFactor = totalPrice / totalRetailValue;
          discountedSoilPrice = toFixed2 (soilRetailPrice * discountFactor);
          discountedConcentratePrice = toFixed2 (concentrateRetailPrice * discountFactor);
          discountedSoilTotal = toFixed2 (discountedSoilPrice * of_int soilUnits);
          discountedConcentrateTotal =
            toFixed2 (discountedConcentratePrice * of_int concentrateUnits);
          discountedTotal = discountedSoilTotal + discountedConcentrateTotal;
          difference = toFixed2 (totalPrice - discountedTotal);
          finalSoilPrice =
            (if difference \<noteq> 0 then
               (let soilProportion = soilRetailTotal / totalRetailValue;
                    soilAdjustment =
                      toFixed2 (difference * soilProportion / of_int soilUnits)
                in toFixed2 (discountedSoilPrice + soilAdjustment))
             else discountedSoilPrice);
          finalConcentratePrice = discountedConcentratePrice
      in (finalSoilPrice, finalConcentratePrice))"

definition expandBundle :: "string \<Rightarrow> bool \<Rightarrow> line_item \<Rightarrow> invoice_row list" where
  "expandBundle vatTaxId pricesIncludeTax item =
     (let quantity = li_quantity item;
          totalPrice = bundleTotalPrice pricesIncludeTax item;
          soilUnits = 4 * quantity;
          concentrateUnits = 2 * quantity;
          (finalSoilPrice, finalConcentratePrice) = bundlePrices quantity totalPrice
      in [\<lparr>Item = \<lparr>Code = ''4744278011219'', Description = ''Toalillemuld 2, 5 l'',
                    Type = 3, UOMName = ''tk''\<rparr>,
           Quantity = soilUnits, Price = toFixed2 finalSoilPrice,
           DiscountPct = 0, DiscountAmount = 0, TaxId = vatTaxId, LocationCode = 1\<rparr>,
          \<lparr>Item = \<lparr>Code = ''4742022540022'',
                    Description = ''Biohuumuse kontsentraat Lilledele, 500ml'',
                    Type = 3, UOMName = ''tk''\<rparr>,
           Quantity = concentrateUnits, Price = toFixed2 finalConcentratePrice,
           DiscountPct = 0, DiscountAmount = 0, TaxId = vatTaxId, LocationCode = 1\<rparr>])"

text \<open>Regular products: code and description from the table or from the item itself.\<close>

definition productInfo :: "line_item \<Rightarrow> string \<times> string \<times> string" where
  "productInfo item =
     (case map_of productMapping (li_name item) of
        Some info \<Rightarrow> info
      | None \<Rightarrow>
          (let code =
             (if li_sku item \<noteq> [] then li_sku item
              else if li_product_id item \<noteq> 0 then showNat (li_product_id item)
              else ''NOSKU'')
           in (code, li_name item, ''tk'')))"

definition regularPrice :: "bool \<Rightarrow> line_item \<Rightarrow> rat" where
  "regularPrice pricesIncludeTax item =
     (let quantity = li_quantity item in
      case (li_subtotal item, quantity > 0) of
        (Some subtotal, True) \<Rightarrow>
          (case (pricesIncludeTax, li_subtotal_tax item) of
             (True, Some subtotalTax) \<Rightarrow>
               toFixed2 ((subtotal - subtotalTax) / of_int quantity)
           | _ \<Rightarrow> toFixed2 (subtotal / of_int quantity))
      | _ \<Rightarrow>
          (case li_price item of
             Some price \<Rightarrow>
               if pricesIncludeTax then toFixed2 (price / (122 / 100))
               else toFixed2 price
           | None \<Rightarrow> 0))"

definition regularRow :: "string \<Rightarrow> bool \<Rightarrow> line_item \<Rightarrow> invoice_row" where
  "regularRow vatTaxId pricesIncludeTax item =
     (case productInfo item of
        (code, name, unit) \<Rightarrow>
          \<lparr>Item = \<lparr>Code = code, Description = name, Type = 3, UOMName = unit\<rparr>,
           Quantity = li_quantity item, Price = regularPrice pricesIncludeTax item,
           DiscountPct = 0, DiscountAmount = 0, TaxId = vatTaxId, LocationCode = 1\<rparr>)"

text \<open>The body of \<open>line_items.forEach\<close>: the rows pushed for one line item.\<close>

definition itemRows :: "string \<Rightarrow> bool \<Rightarrow> line_item \<Rightarrow> invoice_row list" where
  "itemRows vatTaxId pricesIncludeTax item =
     (if li_name item = ''Toataimede Uus Algus''
      then expandBundle vatTaxId pricesIncludeTax item
      else [regularRow vatTaxId pricesIncludeTax item])"

definition shippingRows :: "string \<Rightarrow> bool \<Rightarrow> shipping_line \<Rightarrow> invoice_row list" where
  "shippingRows vatTaxId pricesIncludeTax shipping =
     (let shippingTotal =
        toFixed2 (case sh_total shipping of Some t \<Rightarrow> t | None \<Rightarrow> 0)
      in if shippingTotal \<le> 0 then []
         else
           (let shippingTotal' =
              (case (pricesIncludeTax, sh_total_tax shipping) of
                 (True, Some shippingTax) \<Rightarrow> toFixed2 (shippingTotal - shippingTax)
               | _ \<Rightarrow> shippingTotal)
            in [\<lparr>Item = \<lparr>Code = ''Transport'', Description = ''Pakiautomaat'',
                          Type = 3, UOMName = ''tk''\<rparr>,
                 Quantity = 1, Price = shippingTotal',
                 DiscountPct = 0, DiscountAmount = 0, TaxId = vatTaxId,
                 LocationCode = 1\<rparr>]))"

definition couponRows :: "string \<Rightarrow> bool \<Rightarrow> coupon_line \<Rightarrow> invoice_row list" where
  "couponRows vatTaxId pricesIncludeTax coupon =
     (let couponCode =
        (case cp_code coupon of Some c \<Rightarrow> if c \<noteq> [] then c else ''Discount''
         | None \<Rightarrow> ''Discount'');
          discountAmount = (case cp_discount coupon of Some d \<Rightarrow> d | None \<Rightarrow> 0)
      in if discountAmount \<le> 0 then []
         else
           (let discountAmount' =
              (case (pricesIncludeTax, cp_discount_tax coupon) of
                 (True, Some discountTax) \<Rightarrow> toFixed2 (discountAmount - discountTax)
               | _ \<Rightarrow> discountAmount);
                negativeAmount = - \<bar>discountAmount'\<bar>
            in [\<lparr>Item = \<lparr>Code = ''DISCOUNT'',
                          Description = ''Allahindlus ('' @ couponCode @ '')'',
                          Type = 3, UOMName = ''tk''\<rparr>,
                 Quantity = 1, Price = toFixed2 negativeAmount,
                 DiscountPct = 0, DiscountAmount = 0, TaxId = vatTaxId,
                 LocationCode = 1\<rparr>]))"

definition prepareInvoiceRowsFromWooOrder :: "config \<Rightarrow> woo_order \<Rightarrow> invoice_row list" where
  "prepareInvoiceRowsFromWooOrder cfg wooOrder =
     (let vatTaxId = getVATTaxId cfg;
          pit = prices_include_tax wooOrder
      in concat (map (itemRows vatTaxId pit) (line_items wooOrder))
         @ concat (map (shippingRows vatTaxId pit) (shipping_lines wooOrder))
         @ concat (map (couponRows vatTaxId pit) (coupon_lines wooOrder)))"

section \<open>Invoice numbering: \<open>getNextInvoiceNumber\<close>\<close>


definition isDigit :: "char \<Rightarrow> bool" where
  "isDigit c = (48 \<le> (of_char c :: nat) \<and> (of_char c :: nat) \<le> 57)"




section \<open>The invoice comment and its extraction functions\<close>

definition hComment :: "string \<Rightarrow> string \<Rightarrow> string" where
  "hComment orderId customerName =
     ''Ussimo '' @ [CHR 0x0A] @ ''#'' @ orderId @ [CHR 0x0A] @ customerName"

text \<open>
  Strings are lists of code units below 256. \<open>isSpace\<close> is the class \<open>\s\<close> there, which is
  also what \<open>trim\<close> removes: tab, line feed, vertical tab, form feed, carriage return,
  space and no-break space. \<open>isLineTerminator\<close> is what the regular expression \<open>.\<close> refuses.
\<close>

definition isSpace :: "char \<Rightarrow> bool" where
  "isSpace c = ((of_char c :: nat) \<in> {9, 10, 11, 12, 13, 32, 160})"

definition isLineTerminator :: "char \<Rightarrow> bool" where
  "isLineTerminator c = ((of_char c :: nat) \<in> {10, 13})"

definition trim :: "string \<Rightarrow> string" where
  "trim s = rev (dropWhile isSpace (rev (dropWhile isSpace s)))"

text \<open>\<open>comment.split('\n')\<close>.\<close>

fun splitNewline :: "string \<Rightarrow> string list" where
  "splitNewline [] = [[]]"
| "splitNewline (c # cs) =
     (if c = CHR 0x0A then [] # splitNewline cs
      else (case splitNewline cs of
              p # ps \<Rightarrow> (c # p) # ps
            | [] \<Rightarrow> [[c]]))"

text \<open>
  \<open>comment.match(/#(\d+)/)\<close>: the capture group of the leftmost match, a \<open>#\<close> with a digit
  right after it; the group is the longest run of digits that follows.
\<close>

fun matchHashDigits :: "string \<Rightarrow> string option" where
  "matchHashDigits [] = None"
| "matchHashDigits (c # cs) =
     (if c = CHR ''#'' \<and> takeWhile isDigit cs \<noteq> [] then Some (takeWhile isDigit cs)
      else matchHashDigits cs)"

definition extractOrderNumberFromHComment :: "string \<Rightarrow> string option" where
  "extractOrderNumberFromHComment comment =
     (if comment = [] then None else matchHashDigits comment)"

text \<open>
  \<open>comment.match(/Ussimo\s+#\d+\s+(.+)/i)\<close>. \<open>matchUssimoAt\<close> tries the pattern at the start
  of its argument and gives the capture group. The classes \<open>\s\<close>, \<open>#\<close> and \<open>\d\<close> are disjoint,
  so the first three repetitions take every character they can; the last \<open>\s+\<close> overlaps
  with \<open>.\<close>, so when nothing but white space is left it gives characters back until the
  group can start (\<open>lastStart\<close>: the longest \<open>\s+\<close> that leaves a character \<open>.\<close> accepts).
\<close>

definition toLowerAscii :: "char \<Rightarrow> char" where
  "toLowerAscii c =
     (if 65 \<le> (of_char c :: nat) \<and> (of_char c :: nat) \<le> 90
      then char_of ((of_char c :: nat) + 32) else c)"

fun lastStart :: "string \<Rightarrow> string option" where
  "lastStart [] = None"
| "lastStart (c # cs) =
     (case lastStart cs of
        Some g \<Rightarrow> Some g
      | None \<Rightarrow>
          if isLineTerminator c then None
          else Some (takeWhile (\<lambda>d. \<not> isLineTerminator d) (c # cs)))"

definition matchUssimoAt :: "string \<Rightarrow> string option" where
  "matchUssimoAt s =
     (if map toLowerAscii (take 6 s) \<noteq> ''ussimo'' then None
      else
        (let r1 = drop 6 s; r2 = dropWhile isSpace r1
         in if takeWhile isSpace r1 = [] then None
            else
              (case r2 of
                 [] \<Rightarrow> None
               | h # r3 \<Rightarrow>
                   if h \<noteq> CHR ''#'' \<or> takeWhile isDigit r3 = [] then None
                   else
                     (let r4 = dropWhile isDigit r3;
                          ws = takeWhile isSpace r4;
                          r5 = dropWhile isSpace r4
                      in if ws = [] then None
                         else if r5 \<noteq> []
                         then Some (takeWhile (\<lambda>d. \<not> isLineTerminator d) r5)
                         else lastStart (tl ws)))))"

fun matchUssimo :: "string \<Rightarrow> string option" where
  "matchUssimo [] = matchUssimoAt []"
| "matchUssimo (c # cs) =
     (case matchUssimoAt (c # cs) of
        Some g \<Rightarrow> Some g
      | None \<Rightarrow> matchUssimo cs)"

definition extractCustomerNameFromHComment :: "string \<Rightarrow> string option" where
  "extractCustomerNameFromHComment comment =
     (if comment = [] then None
      else
        (let parts = splitNewline comment
         in if length parts \<ge> 3 then Some (trim (last parts))
            else if length parts = 1 then
              (case matchUssimo comment of
                 Some g \<Rightarrow> Some (trim g)
               | None \<Rightarrow> Some (trim comment))
            else Some (trim comment)))"

section \<open>Total reconciler and invoice assembler: \<open>createInvoiceFromWooCommerceOrder\<close>\<close>

text \<open>The two \<open>reduce\<close> loops over the rows: the pre-tax sum and the tax predicted per row.\<close>

definition rowsSum :: "invoice_row list \<Rightarrow> rat" where
  "rowsSum rows = foldl (\<lambda>sum row. sum + Price row * of_int (Quantity row)) 0 rows"










section \<open>Webhook validation: \<open>validateWooCommerceWebhook\<close>\<close>

text \<open>
  \<open>hmacBase64 secret body\<close> stands for the library computation
  \<open>crypto.createHmac('sha256', secret).update(JSON.stringify(body)).digest('base64')\<close>;
  it is \<open>None\<close> when that computation throws. \<open>signatureHeader\<close> is the request header
  \<open>x-wc-webhook-signature\<close>, \<open>None\<close> when absent.
\<close>

definition validateWooCommerceWebhook ::
  "config \<Rightarrow> (string \<Rightarrow> 'body \<Rightarrow> string option) \<Rightarrow> string option \<Rightarrow> 'body \<Rightarrow> bool" where
  "validateWooCommerceWebhook cfg hmacBase64 signatureHeader body =
     (case woocommerce_webhookSecret cfg of
        None \<Rightarrow> True
      | Some secret \<Rightarrow>
          if secret = [] then True
          else
            (case signatureHeader of
               None \<Rightarrow> False
             | Some signature \<Rightarrow>
                 if signature = [] then False
                 else
                   (case hmacBase64 secret body of
                      None \<Rightarrow> False
                    | Some calculatedSignature \<Rightarrow> signature = calculatedSignature)))"

section \<open>The scheduler's guard: \<open>syncOrdersToInvoices\<close>\<close>

text \<open>
  JavaScript runs an \<open>async\<close> function without interruption up to its first \<open>await\<close>, and
  from one \<open>await\<close> to the next. \<open>syncOrdersToInvoices\<close> reads and writes the module variable
  \<open>isSyncing\<close> only before its first \<open>await\<close> (the fetch of the orders) and in its \<open>finally\<close>
  block, so one invocation is two steps on the shared state:
  \<^item> \<open>Request\<close>: the call itself, up to the first \<open>await\<close>, or to the end when the guard
    returns the skipped outcome (the \<open>return\<close> is inside the \<open>try\<close>, so the \<open>finally\<close> block
    runs on this path as well);
  \<^item> \<open>Succeed t\<close> or \<open>Fail\<close>: a suspended invocation resumes, processes its orders and
    returns at time \<open>t\<close>, or throws; the \<open>finally\<close> block runs.
  \<open>inFlight\<close> counts the invocations that are suspended inside the body and \<open>fetches\<close> the
  calls of \<open>getOrders\<close>; both are bookkeeping of the model, not variables of the code.
\<close>

record sync_state =
  isSyncing :: bool
  lastSyncTime :: "nat option"
  inFlight :: nat
  fetches :: nat

datatype sync_event = Request | Succeed nat | Fail

datatype sync_outcome = Skipped | Started | Results | Thrown | NoRun

definition initialSyncState :: sync_state where
  "initialSyncState =
     \<lparr>isSyncing = False, lastSyncTime = None, inFlight = 0, fetches = 0\<rparr>"

fun syncStep :: "sync_state \<Rightarrow> sync_event \<Rightarrow> sync_outcome \<times> sync_state" where
  "syncStep st Request =
     (if isSyncing st then (Skipped, st\<lparr>isSyncing := False\<rparr>)
      else (Started, st\<lparr>isSyncing := True, inFlight := inFlight st + 1,
                         fetches := fetches st + 1\<rparr>))"
| "syncStep st (Succeed t) =
     (if inFlight st = 0 then (NoRun, st)
      else (Results, st\<lparr>lastSyncTime := Some t, isSyncing := False,
                         inFlight := inFlight st - 1\<rparr>))"
| "syncStep st Fail =
     (if inFlight st = 0 then (NoRun, st)
      else (Thrown, st\<lparr>isSyncing := False, inFlight := inFlight st - 1\<rparr>))"

fun syncRun :: "sync_state \<Rightarrow> sync_event list \<Rightarrow> sync_outcome list \<times> sync_state" where
  "syncRun st [] = ([], st)"
| "syncRun st (e # es) =
     (case syncStep st e of
        (out, st') \<Rightarrow> (case syncRun st' es of (outs, st'') \<Rightarrow> (out # outs, st'')))"

section \<open>Sample inputs\<close>

text \<open>
  A configuration without a VAT tax id or a webhook secret, a line item with no price
  field at all, and an order without lines; the theorems below are instantiated on
  updates of these.
\<close>

definition sampleConfig :: config where
  "sampleConfig = \<lparr>merit_vatTaxId = None, woocommerce_webhookSecret = None\<rparr>"

definition sampleItem :: line_item where
  "sampleItem =
     \<lparr>li_name = ''Vertikaalne taimekast'', li_quantity = 1, li_sku = [],
      li_product_id = 77, li_total = None, li_total_tax = None, li_subtotal = None,
      li_subtotal_tax = None, li_price = None\<rparr>"

definition sampleOrder :: woo_order where
  "sampleOrder =
     \<lparr>ord_id = ''1736'', ord_total = None, currency = Some ''EUR'',
      prices_include_tax = True, line_items = [], shipping_lines = [],
      coupon_lines = [],
      billing = \<lparr>first_name = ''Malle'', last_name = ''Tammekivi'', address_1 = None,
                  city = None, country = None, postcode = None, email = None,
                  phone = None\<rparr>\<rparr>"

section \<open>Amounts in whole cents\<close>


text \<open>The fields of a row that do not depend on the line it comes from.\<close>

definition fixedFields :: "string \<Rightarrow> invoice_row \<Rightarrow> bool" where
  "fixedFields vatTaxId row =
     (DiscountPct row = 0 \<and> DiscountAmount row = 0 \<and> TaxId row = vatTaxId
      \<and> LocationCode row = 1 \<and> Type (Item row) = 3)"













lemma toFixed2_nonpos: "x \<le> 0 \<Longrightarrow> toFixed2 x \<le> 0"
proof -
  assume "x \<le> 0"
  then have "0 \<le> \<lfloor>(- x) * 100 + 1 / 2\<rfloor>" by simp
  then have "0 \<le> (of_int \<lfloor>(- x) * 100 + 1 / 2\<rfloor> / 100 :: rat)" by simp
  with \<open>x \<le> 0\<close> show ?thesis
    by (cases "x = 0") (simp_all add: toFixed2_def)
qed



section \<open>Exact reconciliation\<close>



section \<open>Bundle expansion\<close>

text \<open>
  Claim C2. The claim asks that the two lines replacing a bundle add up to the bundle's
  own pre-tax total, to the cent. The code does not achieve it: two bundles at 20.00
  including tax have the pre-tax total 16.39; the discounted unit prices round to 1.21
  and 1.68, the eight and four units add up to 16.40, and the correction of the
  difference of -0.01, spread over the eight soil units, rounds to zero. The theorem
  evaluates the normalizer on this line item.
\<close>

theorem bundle_expansion_mismatch:
  "bundleTotalPrice True
       (sampleItem\<lparr>li_name := ''Toataimede Uus Algus'', li_quantity := 2,
          li_total := Some 20\<rparr>) = 1639 / 100
   \<and> map Quantity (expandBundle (getVATTaxId sampleConfig) True
         (sampleItem\<lparr>li_name := ''Toataimede Uus Algus'', li_quantity := 2,
            li_total := Some 20\<rparr>)) = [8, 4]
   \<and> map Price (expandBundle (getVATTaxId sampleConfig) True
         (sampleItem\<lparr>li_name := ''Toataimede Uus Algus'', li_quantity := 2,
            li_total := Some 20\<rparr>)) = [121 / 100, 168 / 100]
   \<and> rowsSum (expandBundle (getVATTaxId sampleConfig) True
         (sampleItem\<lparr>li_name := ''Toataimede Uus Algus'', li_quantity := 2,
            li_total := Some 20\<rparr>)) = 1640 / 100"
  by code_simp

lemma bundle_campaign_scenario:
  "bundleTotalPrice True
       (sampleItem\<lparr>li_name := ''Toataimede Uus Algus'', li_price := Some 10\<rparr>) = 820 / 100
   \<and> rowsSum (expandBundle (getVATTaxId sampleConfig) True
         (sampleItem\<lparr>li_name := ''Toataimede Uus Algus'', li_price := Some 10\<rparr>))
       = 820 / 100"
  by code_simp

section \<open>Tax-inclusive unit prices\<close>




section \<open>The reconciler's price adjustment\<close>





section \<open>Orders without rows\<close>





section \<open>Fixed fields of the rows\<close>

lemma expandBundle_fixed:
  "row \<in> set (expandBundle vatTaxId pit item) \<Longrightarrow> fixedFields vatTaxId row"
  by (auto simp: expandBundle_def fixedFields_def Let_def split: prod.splits)

lemma regularRow_fixed: "fixedFields vatTaxId (regularRow vatTaxId pit item)"
  by (simp add: regularRow_def fixedFields_def split: prod.splits)

lemma itemRows_fixed:
  "row \<in> set (itemRows vatTaxId pit item) \<Longrightarrow> fixedFields vatTaxId row"
  by (auto simp: itemRows_def regularRow_fixed expandBundle_fixed split: if_splits)

lemma shippingRows_fixed:
  "row \<in> set (shippingRows vatTaxId pit shipping) \<Longrightarrow> fixedFields vatTaxId row"
  by (auto simp: shippingRows_def fixedFields_def Let_def split: if_splits)

lemma couponRows_fixed:
  "row \<in> set (couponRows vatTaxId pit coupon) \<Longrightarrow> fixedFields vatTaxId row"
  by (auto simp: couponRows_def fixedFields_def Let_def split: if_splits)

lemma couponRows_price:
  "row \<in> set (couponRows vatTaxId pit coupon) \<Longrightarrow> Price row \<le> 0"
  by (auto simp: couponRows_def Let_def toFixed2_nonpos split: if_splits)

text \<open>
  Claim C9. Every row that the normalizer emits, whether it comes from a product, from a
  bundle, from a shipping line or from a coupon, has \<open>DiscountPct = 0\<close>,
  \<open>DiscountAmount = 0\<close>, the one VAT tax id of the configuration, \<open>LocationCode = 1\<close> and
  \<open>Item.Type = 3\<close>. A coupon therefore shows only in the price of its row, which is never
  above zero.
\<close>

theorem rows_fixed_fields:
  "(\<forall>row\<in>set (prepareInvoiceRowsFromWooOrder cfg wooOrder).
      DiscountPct row = 0 \<and> DiscountAmount row = 0 \<and> TaxId row = getVATTaxId cfg
      \<and> LocationCode row = 1 \<and> Type (Item row) = 3)
   \<and> (\<forall>coupon\<in>set (coupon_lines wooOrder).
        \<forall>row\<in>set (couponRows (getVATTaxId cfg) (prices_include_tax wooOrder) coupon).
          Price row \<le> 0)"
proof -
  have "fixedFields (getVATTaxId cfg) row"
    if "row \<in> set (prepareInvoiceRowsFromWooOrder cfg wooOrder)" for row
    using that
    by (auto simp: prepareInvoiceRowsFromWooOrder_def Let_def
        dest: itemRows_fixed shippingRows_fixed couponRows_fixed)
  then show ?thesis
    by (auto simp: fixedFields_def dest: couponRows_price)
qed

theorem rows_fixed_fields_witness:
  "length (prepareInvoiceRowsFromWooOrder sampleConfig
     (sampleOrder\<lparr>line_items := [sampleItem\<lparr>li_price := Some 10\<rparr>,
          sampleItem\<lparr>li_name := ''Toataimede Uus Algus'', li_price := Some 10\<rparr>],
        shipping_lines := [\<lparr>sh_total = Some (399 / 100), sh_total_tax = None\<rparr>],
        coupon_lines := [\<lparr>cp_code = Some ''KEVAD'', cp_discount = Some 2,
                          cp_discount_tax = None\<rparr>]\<rparr>)) = 5
   \<and> list_all (\<lambda>row. DiscountPct row = 0 \<and> DiscountAmount row = 0
                  \<and> TaxId row = ''307000b4-f1f2-4bc7-a110-24cb18d77212''
                  \<and> LocationCode row = 1 \<and> Type (Item row) = 3)
       (prepareInvoiceRowsFromWooOrder sampleConfig
          (sampleOrder\<lparr>line_items := [sampleItem\<lparr>li_price := Some 10\<rparr>,
               sampleItem\<lparr>li_name := ''Toataimede Uus Algus'', li_price := Some 10\<rparr>],
             shipping_lines := [\<lparr>sh_total = Some (399 / 100), sh_total_tax = None\<rparr>],
             coupon_lines := [\<lparr>cp_code = Some ''KEVAD'', cp_discount = Some 2,
                               cp_discount_tax = None\<rparr>]\<rparr>))
   \<and> list_all (\<lambda>row. Price row \<le> 0)
       (couponRows (getVATTaxId sampleConfig) True
          \<lparr>cp_code = Some ''KEVAD'', cp_discount = Some 2, cp_discount_tax = None\<rparr>)
   \<and> length (couponRows (getVATTaxId sampleConfig) True
          \<lparr>cp_code = Some ''KEVAD'', cp_discount = Some 2, cp_discount_tax = None\<rparr>) = 1"
proof -
  let ?coupon = "\<lparr>cp_code = Some ''KEVAD'', cp_discount = Some 2, cp_discount_tax = None\<rparr>"
  let ?order = "sampleOrder\<lparr>line_items := [sampleItem\<lparr>li_price := Some 10\<rparr>,
          sampleItem\<lparr>li_name := ''Toataimede Uus Algus'', li_price := Some 10\<rparr>],
        shipping_lines := [\<lparr>sh_total = Some (399 / 100), sh_total_tax = None\<rparr>],
        coupon_lines := [?coupon]\<rparr>"
  have n: "length (prepareInvoiceRowsFromWooOrder sampleConfig ?order) = 5" by code_simp
  have m: "length (couponRows (getVATTaxId sampleConfig) True ?coupon) = 1" by code_simp
  have v: "getVATTaxId sampleConfig = ''307000b4-f1f2-4bc7-a110-24cb18d77212''" by code_simp
  have c: "?coupon \<in> set (coupon_lines ?order)" by simp
  have p: "prices_include_tax ?order" by (simp add: sampleOrder_def)
  note t = rows_fixed_fields [of sampleConfig ?order]
  from t have a: "list_all (\<lambda>row. DiscountPct row = 0 \<and> DiscountAmount row = 0
                  \<and> TaxId row = ''307000b4-f1f2-4bc7-a110-24cb18d77212''
                  \<and> LocationCode row = 1 \<and> Type (Item row) = 3)
       (prepareInvoiceRowsFromWooOrder sampleConfig ?order)"
    unfolding v list_all_iff by (rule conjunct1)
  from t c p have b: "list_all (\<lambda>row. Price row \<le> 0)
       (couponRows (getVATTaxId sampleConfig) True ?coupon)"
    unfolding list_all_iff by auto
  from n a b m show ?thesis by (intro conjI)
qed

section \<open>Round trip of the invoice comment\<close>

lemma splitNewline_single: "CHR 0x0A \<notin> set s \<Longrightarrow> splitNewline s = [s]"
  by (induction s) auto

lemma splitNewline_append:
  "CHR 0x0A \<notin> set a \<Longrightarrow> splitNewline (a @ CHR 0x0A # b) = a # splitNewline b"
  by (induction a) auto

lemma isDigit_not_newline: "isDigit c \<Longrightarrow> c \<noteq> CHR 0x0A"
  by (auto simp: isDigit_def)

lemma digits_no_newline: "list_all isDigit s \<Longrightarrow> CHR 0x0A \<notin> set s"
  by (auto simp: list_all_iff dest: isDigit_not_newline)

lemma splitNewline_hComment:
  assumes "list_all isDigit orderId" and "CHR 0x0A \<notin> set customerName"
  shows "splitNewline (hComment orderId customerName)
           = [''Ussimo '', ''#'' @ orderId, customerName]"
proof -
  have a: "CHR 0x0A \<notin> set ''Ussimo ''" by simp
  have b: "CHR 0x0A \<notin> set (''#'' @ orderId)"
    using digits_no_newline [OF assms(1)] by simp
  have "hComment orderId customerName
          = ''Ussimo '' @ CHR 0x0A # ((''#'' @ orderId) @ CHR 0x0A # customerName)"
    by (simp add: hComment_def)
  then show ?thesis
    by (simp only: splitNewline_append [OF a] splitNewline_append [OF b]
        splitNewline_single [OF assms(2)])
qed

lemma takeWhile_digits:
  "list_all isDigit ds \<Longrightarrow> takeWhile isDigit (ds @ CHR 0x0A # rest) = ds"
  by (induction ds) (auto simp: isDigit_def)

lemma matchHashDigits_hComment:
  assumes "orderId \<noteq> []" and "list_all isDigit orderId"
  shows "matchHashDigits (hComment orderId customerName) = Some orderId"
  using assms by (simp add: hComment_def takeWhile_digits)

text \<open>
  Claim C6. For an order id that is a run of digits (at least one) and a customer name
  without a line feed, the comment \<open>"Ussimo \n#<orderId>\n<customerName>"\<close> gives back the
  order id (the first run of digits after a \<open>#\<close>) and the customer name, trimmed (the part
  after the second line feed); the name comes back unchanged when it neither starts nor
  ends with white space. Whether the name contains a \<open>#\<close> with digits does not matter.
\<close>

theorem comment_roundtrip:
  assumes "orderId \<noteq> []"
    and "list_all isDigit orderId"
    and "CHR 0x0A \<notin> set customerName"
  shows "extractOrderNumberFromHComment (hComment orderId customerName) = Some orderId
       \<and> extractCustomerNameFromHComment (hComment orderId customerName)
           = Some (trim customerName)
       \<and> (customerName \<noteq> [] \<and> \<not> isSpace (hd customerName) \<and> \<not> isSpace (last customerName)
            \<longrightarrow> extractCustomerNameFromHComment (hComment orderId customerName)
                  = Some customerName)"
proof -
  have ne: "hComment orderId customerName \<noteq> []" by (simp add: hComment_def)
  have num: "extractOrderNumberFromHComment (hComment orderId customerName) = Some orderId"
    using ne matchHashDigits_hComment [OF assms(1,2)]
    by (simp add: extractOrderNumberFromHComment_def)
  have name: "extractCustomerNameFromHComment (hComment orderId customerName)
           = Some (trim customerName)"
    using ne splitNewline_hComment [OF assms(2,3)]
    by (simp add: extractCustomerNameFromHComment_def Let_def)
  have tr: "trim customerName = customerName"
    if "customerName \<noteq> []" "\<not> isSpace (hd customerName)" "\<not> isSpace (last customerName)"
  proof -
    from that(1,2) have "dropWhile isSpace customerName = customerName"
      by (cases customerName) simp_all
    moreover from that(1,3) have "dropWhile isSpace (rev customerName) = rev customerName"
      by (cases "rev customerName") (simp_all add: last_rev hd_rev [symmetric])
    ultimately show ?thesis by (simp add: trim_def)
  qed
  from num name tr show ?thesis by simp
qed

theorem comment_roundtrip_witness:
  "''1736'' \<noteq> [] \<and> list_all isDigit ''1736'' \<and> CHR 0x0A \<notin> set ''Malle Tammekivi''
   \<and> ''Malle Tammekivi'' \<noteq> [] \<and> \<not> isSpace (hd ''Malle Tammekivi'')
   \<and> \<not> isSpace (last ''Malle Tammekivi'')
   \<and> extractOrderNumberFromHComment (hComment ''1736'' ''Malle Tammekivi'') = Some ''1736''
   \<and> extractCustomerNameFromHComment (hComment ''1736'' ''Malle Tammekivi'')
       = Some (trim ''Malle Tammekivi'')
   \<and> extractCustomerNameFromHComment (hComment ''1736'' ''Malle Tammekivi'')
       = Some ''Malle Tammekivi''"
proof -
  have h1: "''1736'' \<noteq> []" by simp
  have h2: "list_all isDigit ''1736''" by code_simp
  have h3: "CHR 0x0A \<notin> set ''Malle Tammekivi''" by simp
  have h4: "''Malle Tammekivi'' \<noteq> []" by simp
  have h5: "\<not> isSpace (hd ''Malle Tammekivi'')" by code_simp
  have h6: "\<not> isSpace (last ''Malle Tammekivi'')" by code_simp
  note t = comment_roundtrip [OF h1 h2 h3]
  from t have c1: "extractOrderNumberFromHComment (hComment ''1736'' ''Malle Tammekivi'')
      = Some ''1736''" by (rule conjunct1)
  from t have c2: "extractCustomerNameFromHComment (hComment ''1736'' ''Malle Tammekivi'')
       = Some (trim ''Malle Tammekivi'')" by blast
  from t h4 h5 h6 have c3: "extractCustomerNameFromHComment (hComment ''1736'' ''Malle Tammekivi'')
       = Some ''Malle Tammekivi''" by blast
  from h1 h2 h3 h4 h5 h6 c1 c2 c3 show ?thesis by (intro conjI)
qed

section \<open>The next invoice number\<close>








section \<open>Validation of the webhook signature\<close>

text \<open>
  Claim C10. Without a webhook secret (absent or empty) every request is accepted, with
  no look at its signature. With a secret, a request without a signature header is
  rejected, and so is one whose signature is not the computed one, which includes the
  case where the computation throws; a request whose signature equals the computed one
  is accepted.
\<close>

theorem validateWooCommerceWebhook_cases:
  "((woocommerce_webhookSecret cfg = None \<or> woocommerce_webhookSecret cfg = Some []) \<longrightarrow>
      validateWooCommerceWebhook cfg hmacBase64 signatureHeader body)
   \<and> (\<forall>secret. woocommerce_webhookSecret cfg = Some secret \<and> secret \<noteq> [] \<longrightarrow>
        ((signatureHeader = None \<or> signatureHeader = Some []) \<longrightarrow>
           \<not> validateWooCommerceWebhook cfg hmacBase64 signatureHeader body)
        \<and> (\<forall>signature. signatureHeader = Some signature
               \<and> hmacBase64 secret body \<noteq> Some signature \<longrightarrow>
             \<not> validateWooCommerceWebhook cfg hmacBase64 signatureHeader body)
        \<and> (\<forall>signature. signatureHeader = Some signature \<and> signature \<noteq> []
               \<and> hmacBase64 secret body = Some signature \<longrightarrow>
             validateWooCommerceWebhook cfg hmacBase64 signatureHeader body))"
  by (auto simp: validateWooCommerceWebhook_def split: option.splits)

theorem validateWooCommerceWebhook_cases_witness:
  "validateWooCommerceWebhook sampleConfig
       (\<lambda>secret body. if body = ''{}'' then None else Some (secret @ body)) None ''{id:1736}''
   \<and> \<not> validateWooCommerceWebhook (sampleConfig\<lparr>woocommerce_webhookSecret := Some ''s3''\<rparr>)
       (\<lambda>secret body. if body = ''{}'' then None else Some (secret @ body)) None ''{id:1736}''
   \<and> \<not> validateWooCommerceWebhook (sampleConfig\<lparr>woocommerce_webhookSecret := Some ''s3''\<rparr>)
       (\<lambda>secret body. if body = ''{}'' then None else Some (secret @ body))
       (Some ''forged'') ''{id:1736}''
   \<and> \<not> validateWooCommerceWebhook (sampleConfig\<lparr>woocommerce_webhookSecret := Some ''s3''\<rparr>)
       (\<lambda>secret body. if body = ''{}'' then None else Some (secret @ body))
       (Some ''s3{}'') ''{}''
   \<and> validateWooCommerceWebhook (sampleConfig\<lparr>woocommerce_webhookSecret := Some ''s3''\<rparr>)
       (\<lambda>secret body. if body = ''{}'' then None else Some (secret @ body))
       (Some ''s3{id:1736}'') ''{id:1736}''"
proof -
  let ?h = "\<lambda>(secret :: string) (body :: string).
              if body = ''{}'' then None else Some (secret @ body)"
  let ?cfg = "sampleConfig\<lparr>woocommerce_webhookSecret := Some ''s3''\<rparr>"
  have n: "woocommerce_webhookSecret sampleConfig = None" by (simp add: sampleConfig_def)
  have s: "woocommerce_webhookSecret ?cfg = Some ''s3'' \<and> ''s3'' \<noteq> []" by simp
  have m1: "?h ''s3'' ''{id:1736}'' \<noteq> Some ''forged''" by simp
  have m2: "?h ''s3'' ''{}'' \<noteq> Some ''s3{}''" by simp
  have m3: "''s3{id:1736}'' \<noteq> [] \<and> ?h ''s3'' ''{id:1736}'' = Some ''s3{id:1736}''" by simp
  from validateWooCommerceWebhook_cases [of sampleConfig ?h None "''{id:1736}''"] n
  have c1: "validateWooCommerceWebhook sampleConfig ?h None ''{id:1736}''" by blast
  from validateWooCommerceWebhook_cases [of ?cfg ?h None "''{id:1736}''"] s
  have c2: "\<not> validateWooCommerceWebhook ?cfg ?h None ''{id:1736}''" by blast
  from validateWooCommerceWebhook_cases [of ?cfg ?h "Some ''forged''" "''{id:1736}''"] s m1
  have c3: "\<not> validateWooCommerceWebhook ?cfg ?h (Some ''forged'') ''{id:1736}''" by blast
  from validateWooCommerceWebhook_cases [of ?cfg ?h "Some ''s3{}''" "''{}''"] s m2
  have c4: "\<not> validateWooCommerceWebhook ?cfg ?h (Some ''s3{}'') ''{}''" by blast
  from validateWooCommerceWebhook_cases [of ?cfg ?h "Some ''s3{id:1736}''" "''{id:1736}''"] s m3
  have c5: "validateWooCommerceWebhook ?cfg ?h (Some ''s3{id:1736}'') ''{id:1736}''" by blast
  from c1 c2 c3 c4 c5 show ?thesis by (intro conjI)
qed

section \<open>The guard against concurrent synchronization runs\<close>

text \<open>
  A request that finds the flag set is skipped without a fetch, and the end of a run
  clears the flag. But the skipped request clears the flag too.
\<close>

lemma sync_request_skipped:
  "isSyncing st \<Longrightarrow>
     fst (syncStep st Request) = Skipped
     \<and> fetches (snd (syncStep st Request)) = fetches st
     \<and> inFlight (snd (syncStep st Request)) = inFlight st"
  by simp

lemma sync_finish_clears_flag:
  "0 < inFlight st \<Longrightarrow>
     \<not> isSyncing (snd (syncStep st (Succeed t))) \<and> \<not> isSyncing (snd (syncStep st Fail))"
  by simp

lemma sync_skip_clears_flag: "isSyncing st \<Longrightarrow> \<not> isSyncing (snd (syncStep st Request))"
  by simp

text \<open>
  Claim C8. At most one run should be in flight at any time. Three requests in a row,
  none of the runs having finished, break it: the first starts a run, the second is
  skipped and, leaving through the \<open>finally\<close> block, resets the flag while the first run
  is still waiting for its orders, and the third starts a second run beside the first.
\<close>

theorem sync_three_requests_two_in_flight:
  "syncRun initialSyncState [Request, Request, Request]
     = ([Started, Skipped, Started],
        \<lparr>isSyncing = True, lastSyncTime = None, inFlight = 2, fetches = 2\<rparr>)"
  by (simp add: initialSyncState_def)

end
